theory Spec2Isabelle
  imports Complex_Main "HOL-Library.Word" "HOL-Library.List_Lexorder"
begin

unbundle bit_operations_syntax

section \<open>Column types and typed cells (gumshoe/gen.go)\<close>

text \<open>
  The generator instantiates every template once per element of \<open>types\<close>. The seven
  names are the constructors of \<open>Type\<close>, in the order of the source's list.
\<close>

datatype Type =
  TypeUint8 | TypeInt8 | TypeUint16 | TypeInt16 | TypeUint32 | TypeInt32 | TypeFloat32

text \<open>\<open>typeWidths\<close>: \<open>unsafe.Sizeof\<close> of a zero of the type, in bytes.\<close>

fun typeWidths :: "Type \<Rightarrow> nat" where
  "typeWidths TypeUint8 = 1"
| "typeWidths TypeInt8 = 1"
| "typeWidths TypeUint16 = 2"
| "typeWidths TypeInt16 = 2"
| "typeWidths TypeUint32 = 4"
| "typeWidths TypeInt32 = 4"
| "typeWidths TypeFloat32 = 4"

text \<open>\<open>typeMaxes\<close>: \<open>math.MaxUint8\<close>, \<open>math.MaxInt8\<close>, ... (\<open>math.MaxFloat32\<close> is the
  integer \<open>(2^24 - 1) * 2^104\<close>).\<close>

fun typeMaxes :: "Type \<Rightarrow> int" where
  "typeMaxes TypeUint8 = 255"
| "typeMaxes TypeInt8 = 127"
| "typeMaxes TypeUint16 = 65535"
| "typeMaxes TypeInt16 = 32767"
| "typeMaxes TypeUint32 = 4294967295"
| "typeMaxes TypeInt32 = 2147483647"
| "typeMaxes TypeFloat32 = (2 ^ 24 - 1) * 2 ^ 104"

text \<open>The generator's own classification: a name with prefix \<open>int\<close> or \<open>uint\<close> is an
  integer type, a name with prefix \<open>float\<close> a floating-point type.\<close>

fun isIntType :: "Type \<Rightarrow> bool" where
  "isIntType TypeFloat32 = False"
| "isIntType _ = True"

fun isSigned :: "Type \<Rightarrow> bool" where
  "isSigned TypeInt8 = True"
| "isSigned TypeInt16 = True"
| "isSigned TypeInt32 = True"
| "isSigned _ = False"

datatype FilterType =
  FilterEqual | FilterNotEqual | FilterGreaterThan | FilterGreaterThenOrEqual
| FilterLessThan | FilterLessThanOrEqual | FilterIn

text \<open>\<open>SimpleFilterTypes\<close>: the filters with a Go operator; \<open>FilterIn\<close> has none.\<close>

definition SimpleFilterTypes :: "FilterType list" where
  "SimpleFilterTypes = [FilterEqual, FilterNotEqual, FilterGreaterThan,
     FilterGreaterThenOrEqual, FilterLessThan, FilterLessThanOrEqual]"

type_synonym byte = "8 word"
type_synonym RowBytes = "byte list"
type_synonym MetricBytes = "byte list"
type_synonym UntypedBytes = "byte list"

text \<open>
  A cell is read through a pointer cast, \<open>*(*T)(unsafe.Pointer(&row[off]))\<close>: the
  \<open>typeWidths T\<close> bytes from \<open>off\<close> on, least significant byte first (the layout the
  specification fixes). A cell's content is kept as its bit pattern, a natural number
  below \<open>2 ^ (8 * typeWidths T)\<close>. Indexing \<open>row[off]\<close> outside the slice panics, and
  a cast that reaches past the end of the slice has no defined result: both are \<open>None\<close>.
\<close>

fun le_nat :: "byte list \<Rightarrow> nat" where
  "le_nat [] = 0"
| "le_nat (b # bs) = unat b + 256 * le_nat bs"

fun le_bytes :: "nat \<Rightarrow> nat \<Rightarrow> byte list" where
  "le_bytes 0 v = []"
| "le_bytes (Suc n) v = of_nat (v mod 256) # le_bytes n (v div 256)"

definition readCell :: "Type \<Rightarrow> byte list \<Rightarrow> nat \<Rightarrow> nat option" where
  "readCell typ row off =
     (if off + typeWidths typ \<le> length row
      then Some (le_nat (take (typeWidths typ) (drop off row))) else None)"

definition writeCell :: "Type \<Rightarrow> byte list \<Rightarrow> nat \<Rightarrow> nat \<Rightarrow> byte list option" where
  "writeCell typ row off v =
     (if off + typeWidths typ \<le> length row
      then Some (take off row @ le_bytes (typeWidths typ) v @ drop (off + typeWidths typ) row)
      else None)"

text \<open>The integer a bit pattern denotes in an integer type (two's complement for the
  signed ones), the bit pattern of an integer, wrapped to the type's width, and the least
  value of a type (\<open>typeMaxes\<close> is its greatest).\<close>

definition intValue :: "Type \<Rightarrow> nat \<Rightarrow> int" where
  "intValue typ bits =
     (if isSigned typ \<and> 2 ^ (8 * typeWidths typ - 1) \<le> bits
      then int bits - 2 ^ (8 * typeWidths typ) else int bits)"

definition intBits :: "Type \<Rightarrow> int \<Rightarrow> nat" where
  "intBits typ i = nat (i mod 2 ^ (8 * typeWidths typ))"

definition typeMins :: "Type \<Rightarrow> int" where
  "typeMins typ =
     (if typ = TypeFloat32 then - typeMaxes typ
      else if isSigned typ then - typeMaxes typ - 1 else 0)"

text \<open>
  What the program leaves to the Go implementation and to IEEE-754 arithmetic is a
  parameter of the model: the result of converting a floating-point value that the
  integer target type cannot represent (implementation-dependent in Go), and the
  float32 conversions, comparisons and addition, all on bit patterns.
\<close>

record Machine =
  convOutOfRange :: "Type \<Rightarrow> rat \<Rightarrow> nat"
  float32OfFloat64 :: "rat \<Rightarrow> nat"
  float32OfUint32 :: "32 word \<Rightarrow> nat"
  float32Compare :: "FilterType \<Rightarrow> nat \<Rightarrow> nat \<Rightarrow> bool"
  float32Add :: "nat \<Rightarrow> nat \<Rightarrow> nat"
  float32ToInt :: "nat \<Rightarrow> int"

text \<open>No property of the integer columns depends on the machine: the closed examples
  over integer columns are stated at an arbitrary one.\<close>

definition someMachine :: Machine where
  "someMachine = undefined"

text \<open>
  A \<open>float64\<close> that arrives in a request is finite (JSON has no NaN or infinity) and is
  modelled by the rational number it denotes. Go's conversion \<open>T(value)\<close> of a float to
  an integer type discards the fraction (truncation towards zero).
\<close>

definition goTruncate :: "rat \<Rightarrow> int" where
  "goTruncate q = (if q < 0 then - \<lfloor>- q\<rfloor> else \<lfloor>q\<rfloor>)"

definition inRange :: "Type \<Rightarrow> rat \<Rightarrow> bool" where
  "inRange typ q \<longleftrightarrow> typeMins typ \<le> goTruncate q \<and> goTruncate q \<le> typeMaxes typ"

definition convFloat64 :: "Machine \<Rightarrow> Type \<Rightarrow> rat \<Rightarrow> nat" where
  "convFloat64 mc typ q =
     (if typ = TypeFloat32 then float32OfFloat64 mc q
      else if inRange typ q then intBits typ (goTruncate q)
      else convOutOfRange mc typ q)"

text \<open>Go's conversion \<open>T(value)\<close> of a \<open>uint32\<close> to an integer type keeps the low bits.\<close>

definition convUint32 :: "Machine \<Rightarrow> Type \<Rightarrow> 32 word \<Rightarrow> nat" where
  "convUint32 mc typ w =
     (if typ = TypeFloat32 then float32OfUint32 mc w else intBits typ (uint w))"

text \<open>The Go operator of a simple filter, on two values of the column's type.\<close>

fun intOperator :: "FilterType \<Rightarrow> int \<Rightarrow> int \<Rightarrow> bool" where
  "intOperator FilterEqual a b = (a = b)"
| "intOperator FilterNotEqual a b = (a \<noteq> b)"
| "intOperator FilterGreaterThan a b = (a > b)"
| "intOperator FilterGreaterThenOrEqual a b = (a \<ge> b)"
| "intOperator FilterLessThan a b = (a < b)"
| "intOperator FilterLessThanOrEqual a b = (a \<le> b)"
| "intOperator FilterIn a b = False"

definition goOperator :: "Machine \<Rightarrow> Type \<Rightarrow> FilterType \<Rightarrow> nat \<Rightarrow> nat \<Rightarrow> bool" where
  "goOperator mc typ flt a b =
     (if typ = TypeFloat32 then float32Compare mc flt a b
      else intOperator flt (intValue typ a) (intValue typ b))"

text \<open>Go's \<open>+\<close> on two values of the column's type: integer addition wraps around.\<close>

definition goAdd :: "Machine \<Rightarrow> Type \<Rightarrow> nat \<Rightarrow> nat \<Rightarrow> nat" where
  "goAdd mc typ a b =
     (if typ = TypeFloat32 then float32Add mc a b
      else intBits typ (intValue typ a + intValue typ b))"

section \<open>Schema\<close>

text \<open>
  The fields of \<open>gumshoe.Schema\<close> that the sources under study set or read
  (\<open>config.makeSchema\<close>, \<open>MetricBytes.add\<close>, the tests). A dimension column carries
  the flag \<open>String\<close>; durations are in seconds.
\<close>

record Column =
  Name :: string
  ColType :: Type

record DimensionColumn = Column +
  String :: bool

record Schema =
  TimestampColumn :: Column
  DimensionColumns :: "DimensionColumn list"
  MetricColumns :: "Column list"
  MetricOffsets :: "nat list"
  SegmentSize :: nat
  IntervalDuration :: nat
  FixedRetention :: bool
  Retention :: nat

section \<open>Summing metric bytes: \<open>MetricBytes.add\<close>\<close>

text \<open>
  \<open>add\<close> adds \<open>other\<close> to \<open>m\<close>, column by column, at \<open>s.MetricOffsets[i]\<close>, in the
  column's own type; only \<open>m\<close> changes and nothing is returned. The model returns the new
  \<open>m\<close>. \<open>&m[0]\<close> and \<open>&other[0]\<close> panic on an empty slice and \<open>s.MetricOffsets[i]\<close>
  panics when the offsets are fewer than the columns: \<open>None\<close>.
\<close>

fun addColumns :: "Machine \<Rightarrow> (Column \<times> nat option) list \<Rightarrow> MetricBytes \<Rightarrow> MetricBytes
    \<Rightarrow> MetricBytes option" where
  "addColumns mc [] m other = Some m"
| "addColumns mc ((column, None) # rest) m other = None"
| "addColumns mc ((column, Some offset) # rest) m other =
     (case (readCell (ColType column) m offset, readCell (ColType column) other offset) of
        (Some col1, Some col2) \<Rightarrow>
          (case writeCell (ColType column) m offset (goAdd mc (ColType column) col1 col2) of
             Some m' \<Rightarrow> addColumns mc rest m' other
           | None \<Rightarrow> None)
      | _ \<Rightarrow> None)"

definition nth_opt :: "'a list \<Rightarrow> nat \<Rightarrow> 'a option" where
  "nth_opt xs i = (if i < length xs then Some (xs ! i) else None)"

definition add :: "Machine \<Rightarrow> Schema \<Rightarrow> MetricBytes \<Rightarrow> MetricBytes \<Rightarrow> MetricBytes option" where
  "add mc s m other =
     (if m = [] \<or> other = [] then None
      else addColumns mc
        (map (\<lambda>i. (MetricColumns s ! i, nth_opt (MetricOffsets s) i)) [0 ..< length (MetricColumns s)])
        m other)"

section \<open>Query helper functions (gumshoe/gen.go)\<close>

text \<open>
  A value of Go's \<open>interface{}\<close>, with the dynamic types that reach the helpers: nil, a
  \<open>float64\<close>, a \<open>uint32\<close> (a dimension-table id), a string, the slices of these, and
  a value of one of the column types, kept as its bit pattern (\<open>UTyped\<close>), and an \<open>int\<close>.
  A type assertion \<open>value.(T)\<close> on another dynamic type panics: \<open>None\<close>.
\<close>

datatype Untyped =
  UNil | UFloat64 rat | UUint32 "32 word" | UString string
| UFloat64s "rat list" | UUint32s "32 word list" | UList "Untyped list"
| UTyped Type nat | UInt int

fun assertFloat64 :: "Untyped \<Rightarrow> rat option" where
  "assertFloat64 (UFloat64 q) = Some q"
| "assertFloat64 _ = None"

fun assertUint32 :: "Untyped \<Rightarrow> 32 word option" where
  "assertUint32 (UUint32 w) = Some w"
| "assertUint32 _ = None"

fun assertFloat64s :: "Untyped \<Rightarrow> rat list option" where
  "assertFloat64s (UFloat64s qs) = Some qs"
| "assertFloat64s _ = None"

fun assertUint32s :: "Untyped \<Rightarrow> 32 word list option" where
  "assertUint32s (UUint32s ws) = Some ws"
| "assertUint32s _ = None"

text \<open>A filter function maps a row to a boolean; \<open>None\<close> is a panic of the closure
  (an index outside the row).\<close>

type_synonym filterFunc = "RowBytes \<Rightarrow> bool option"

text \<open>The test \<open>row[nilOffset] & mask > 0\<close> (the parameter \<open>mask\<close> is written \<open>msk\<close>).\<close>

definition nilBit :: "RowBytes \<Rightarrow> nat \<Rightarrow> byte \<Rightarrow> bool option" where
  "nilBit row nilOffset msk =
     (if nilOffset < length row then Some (row ! nilOffset AND msk > 0) else None)"

text \<open>Each \<open>make...SimpleGen\<close> has one branch per simple filter and ends in
  \<open>panic("unreached")\<close>, which \<open>FilterIn\<close> reaches: the outer \<open>None\<close>.\<close>

definition makeTimestampFilterFuncSimpleGen ::
    "FilterType \<Rightarrow> (32 word \<Rightarrow> 32 word \<Rightarrow> bool) option" where
  "makeTimestampFilterFuncSimpleGen flt =
     (if flt \<in> set SimpleFilterTypes
      then Some (\<lambda>timestamp t. intOperator flt (uint t) (uint timestamp))
      else None)"

definition makeNilFilterFuncSimpleGen ::
    "Type \<Rightarrow> FilterType \<Rightarrow> (nat \<Rightarrow> byte \<Rightarrow> filterFunc) option" where
  "makeNilFilterFuncSimpleGen typ flt =
     (if flt \<in> set SimpleFilterTypes
      then Some (\<lambda>nilOffset msk row.
        case nilBit row nilOffset msk of
          None \<Rightarrow> None
        | Some True \<Rightarrow> Some (flt = FilterEqual)
        | Some False \<Rightarrow> Some (flt = FilterNotEqual))
      else None)"

definition makeDimensionFilterFuncSimpleGen ::
    "Machine \<Rightarrow> Type \<Rightarrow> FilterType \<Rightarrow> bool
      \<Rightarrow> (Untyped \<Rightarrow> nat \<Rightarrow> byte \<Rightarrow> nat \<Rightarrow> filterFunc option) option" where
  "makeDimensionFilterFuncSimpleGen mc typ flt isString =
     (if flt \<in> set SimpleFilterTypes
      then Some (\<lambda>val nilOffset msk valueOffset.
        case (if isString then map_option (convUint32 mc typ) (assertUint32 val)
              else map_option (convFloat64 mc typ) (assertFloat64 val)) of
          None \<Rightarrow> None
        | Some v \<Rightarrow> Some (\<lambda>row.
            case nilBit row nilOffset msk of
              None \<Rightarrow> None
            | Some True \<Rightarrow> Some (flt = FilterNotEqual)
            | Some False \<Rightarrow>
                map_option (\<lambda>c. goOperator mc typ flt c v) (readCell typ row valueOffset)))
      else None)"

text \<open>The loop \<open>for _, v := range typedValues { if value == v { return true } }\<close>.\<close>

definition inTypedValues :: "Machine \<Rightarrow> Type \<Rightarrow> nat \<Rightarrow> nat list \<Rightarrow> bool" where
  "inTypedValues mc typ c typedValues = (\<exists>v \<in> set typedValues. goOperator mc typ FilterEqual c v)"

definition makeDimensionFilterFuncInGen ::
    "Machine \<Rightarrow> Type \<Rightarrow> bool \<Rightarrow> Untyped \<Rightarrow> bool \<Rightarrow> nat \<Rightarrow> byte \<Rightarrow> nat \<Rightarrow> filterFunc option" where
  "makeDimensionFilterFuncInGen mc typ isString vals acceptNil nilOffset msk valueOffset =
     (case (if isString then map_option (map (convUint32 mc typ)) (assertUint32s vals)
            else map_option (map (convFloat64 mc typ)) (assertFloat64s vals)) of
        None \<Rightarrow> None
      | Some typedValues \<Rightarrow> Some (\<lambda>row.
          case nilBit row nilOffset msk of
            None \<Rightarrow> None
          | Some True \<Rightarrow> Some acceptNil
          | Some False \<Rightarrow>
              map_option (\<lambda>c. inTypedValues mc typ c typedValues) (readCell typ row valueOffset)))"

definition makeMetricFilterFuncSimpleGen ::
    "Machine \<Rightarrow> Type \<Rightarrow> FilterType \<Rightarrow> (rat \<Rightarrow> nat \<Rightarrow> filterFunc) option" where
  "makeMetricFilterFuncSimpleGen mc typ flt =
     (if flt \<in> set SimpleFilterTypes
      then Some (\<lambda>val offset row.
        map_option (\<lambda>c. goOperator mc typ flt c (convFloat64 mc typ val)) (readCell typ row offset))
      else None)"

definition makeMetricFilterFuncInGen :: "Machine \<Rightarrow> Type \<Rightarrow> rat list \<Rightarrow> nat \<Rightarrow> filterFunc" where
  "makeMetricFilterFuncInGen mc typ floats offset row =
     map_option (\<lambda>c. inTypedValues mc typ c (map (convFloat64 mc typ) floats))
       (readCell typ row offset)"

text \<open>\<open>makeSumFuncGen\<close>: the closure adds the metric cell at \<open>offset\<close> to the cell at
  the start of \<open>sum\<close> (written \<open>acc\<close>); the model returns the new \<open>sum\<close>.\<close>

definition makeSumFuncGen :: "Machine \<Rightarrow> Type \<Rightarrow> nat \<Rightarrow> UntypedBytes \<Rightarrow> MetricBytes
    \<Rightarrow> UntypedBytes option" where
  "makeSumFuncGen mc typ offset acc metrics =
     (case (readCell typ acc 0, readCell typ metrics offset) of
        (Some a, Some b) \<Rightarrow> writeCell typ acc 0 (goAdd mc typ a b)
      | _ \<Rightarrow> None)"

text \<open>\<open>numericCellValue\<close>: the cell as a value of its type.\<close>

definition numericCellValue :: "nat \<Rightarrow> Type \<Rightarrow> Untyped" where
  "numericCellValue bits typ = UTyped typ bits"

text \<open>\<open>makeGetDimensionValueAsIntFuncGen\<close>: the cell, converted to \<open>int\<close>.\<close>

definition makeGetDimensionValueAsIntFuncGen :: "Machine \<Rightarrow> Type \<Rightarrow> nat \<Rightarrow> int" where
  "makeGetDimensionValueAsIntFuncGen mc typ bits =
     (if typ = TypeFloat32 then float32ToInt mc bits else intValue typ bits)"

section \<open>The storage engine, modelled from the specification\<close>

text \<open>
  The sources of the engine itself (the schema builder, the dimension tables, the
  MemTable, insert, flush and the query executor) are not among the files under study:
  only the generated helpers above, the tests and the callers are. The definitions of
  this section stand for those missing functions and follow the specification's words;
  wherever a helper of \<open>gen.go\<close> does the work, the model calls it.
\<close>

text \<open>The error kinds of the specification; \<open>Panic\<close> is a Go panic of a helper.\<close>

datatype error = SchemaMismatch | TypeRange | InvalidQuery | Corruption | Panic

subsection \<open>Row layout\<close>



subsection \<open>Dimension tables\<close>

text \<open>
  Modelled from the spec: the dimension table of a string-backed column, missing from
  the sources. It is the ordered vector of the values seen; the id of a value is its
  index. \<open>intern\<close> returns the id of a known value, appends a new one, and fails with
  \<open>TypeRange\<close> when the new id would not fit the column's id type.
\<close>

type_synonym DimensionTable = "string list"

fun indexOf :: "'a list \<Rightarrow> 'a \<Rightarrow> nat option" where
  "indexOf [] v = None"
| "indexOf (x # xs) v = (if x = v then Some 0 else map_option Suc (indexOf xs v))"


definition resolveFilterValue :: "DimensionTable \<Rightarrow> string \<Rightarrow> nat option" where
  "resolveFilterValue tbl v = indexOf tbl v"

subsection \<open>Laying out an input row\<close>











subsection \<open>MemTable and insert-time collapsing\<close>






subsection \<open>The insert pipeline\<close>











subsection \<open>Compiling an \<open>in\<close> filter over a dimension\<close>

fun assertString :: "Untyped \<Rightarrow> string option" where
  "assertString (UString v) = Some v"
| "assertString _ = None"

text \<open>A helper's panic inside the compiler is the error \<open>Panic\<close>.\<close>

definition orPanic :: "'a option \<Rightarrow> error + 'a" where
  "orPanic x = (case x of None \<Rightarrow> Inl Panic | Some y \<Rightarrow> Inr y)"

text \<open>
  Modelled from the spec: the compilation of an \<open>in\<close> filter over a dimension column
  (the caller of \<open>makeDimensionFilterFuncInGen\<close> is missing). The list accepts nil iff it
  contains nil; its other values are converted as the column requires, a string through
  the dimension table; a string with no id matches no row and is left out.
\<close>

definition compileDimensionIn :: "Machine \<Rightarrow> DimensionColumn \<Rightarrow> DimensionTable \<Rightarrow> Untyped list
    \<Rightarrow> nat \<Rightarrow> byte \<Rightarrow> nat \<Rightarrow> error + filterFunc" where
  "compileDimensionIn mc col tbl vals nilOffset msk valueOffset =
     (let acceptNil = (UNil \<in> set vals); nonNil = filter (\<lambda>v. v \<noteq> UNil) vals in
      if String col
      then
        (case those (map assertString nonNil) of
           None \<Rightarrow> Inl InvalidQuery
         | Some strs \<Rightarrow>
             orPanic (makeDimensionFilterFuncInGen mc (ColType col) True
               (UUint32s (map of_nat (List.map_filter (resolveFilterValue tbl) strs)))
               acceptNil nilOffset msk valueOffset))
      else
        (case those (map assertFloat64 nonNil) of
           None \<Rightarrow> Inl InvalidQuery
         | Some qs \<Rightarrow>
             orPanic (makeDimensionFilterFuncInGen mc (ColType col) False (UFloat64s qs)
               acceptNil nilOffset msk valueOffset)))"

subsection \<open>Test fixtures\<close>

text \<open>
  Modelled from the spec: \<open>schemaFixture\<close> of the tests, which is missing. It is the
  schema of the specification's end-to-end scenarios: \<open>at:u32\<close>, \<open>dim1:string:u8\<close>,
  \<open>metric1:u32\<close>, one-hour intervals, retention off. \<open>overflowSchema\<close> is the schema
  \<open>TestInsertOverflow\<close> derives from it: \<open>dim1\<close> a string with \<open>uint8\<close> ids and
  \<open>metric1\<close> a \<open>uint8\<close>.
\<close>

definition schemaFixture :: Schema where
  "schemaFixture = \<lparr>
     TimestampColumn = \<lparr>Name = ''at'', ColType = TypeUint32\<rparr>,
     DimensionColumns = [\<lparr>Name = ''dim1'', ColType = TypeUint8, String = True\<rparr>],
     MetricColumns = [\<lparr>Name = ''metric1'', ColType = TypeUint32\<rparr>],
     MetricOffsets = [0],
     SegmentSize = 1000000,
     IntervalDuration = 3600,
     FixedRetention = False,
     Retention = 0\<rparr>"

definition overflowSchema :: Schema where
  "overflowSchema = schemaFixture\<lparr>
     DimensionColumns := [\<lparr>Name = ''dim1'', ColType = TypeUint8, String = True\<rparr>],
     MetricColumns := [\<lparr>Name = ''metric1'', ColType = TypeUint8\<rparr>]\<rparr>"

section \<open>Cells: reading back what was written\<close>

lemma length_le_bytes [simp]: "length (le_bytes n v) = n"
  by (induction n arbitrary: v) auto

lemma le_nat_le_bytes: "le_nat (le_bytes n v) = v mod 256 ^ n"
proof (induction n arbitrary: v)
  case 0
  then show ?case by simp
next
  case (Suc n)
  have "unat (of_nat (v mod 256) :: byte) = v mod 256"
    by (simp add: unat_of_nat)
  then show ?case using Suc
    by (simp add: mod_mult2_eq)
qed

lemma le_nat_bound: "le_nat bs < 256 ^ length bs"
proof (induction bs)
  case Nil
  then show ?case by simp
next
  case (Cons b bs)
  have "unat b < 256" using unsigned_less [of b] by simp
  then show ?case using Cons by simp
qed

lemma readCell_bound:
  assumes "readCell typ m off = Some a"
  shows "a < 256 ^ typeWidths typ"
proof -
  from assms have "off + typeWidths typ \<le> length m"
    and a: "a = le_nat (take (typeWidths typ) (drop off m))"
    by (auto simp: readCell_def split: if_splits)
  then have "length (take (typeWidths typ) (drop off m)) = typeWidths typ" by simp
  then show ?thesis using le_nat_bound [of "take (typeWidths typ) (drop off m)"] a by simp
qed

lemma readCell_writeCell_same:
  assumes "writeCell typ m off v = Some m'"
  shows "readCell typ m' off = Some (v mod 256 ^ typeWidths typ) \<and> length m' = length m"
  using assms by (auto simp: readCell_def writeCell_def le_nat_le_bytes split: if_splits)

lemma slice_write_before:
  assumes "off + w \<le> length m" "off' + w' \<le> off"
  shows "take w' (drop off' (take off m @ bs @ drop (off + w) m)) = take w' (drop off' m)"
proof -
  have "take w' (drop off' (take off m @ bs @ drop (off + w) m))
        = take w' (drop off' (take off m))"
    using assms by simp
  also have "\<dots> = take w' (drop off' m)"
    using assms by (simp add: drop_take min_def)
  finally show ?thesis .
qed

lemma slice_write_after:
  assumes "off + w \<le> length m" "length bs = w" "off + w \<le> off'"
  shows "drop off' (take off m @ bs @ drop (off + w) m) = drop off' m"
  using assms by (simp add: min_def)

lemma readCell_writeCell_other:
  assumes "writeCell typ m off v = Some m'"
      and "off' + typeWidths typ' \<le> off \<or> off + typeWidths typ \<le> off'"
  shows "readCell typ' m' off' = readCell typ' m off'"
proof -
  from assms(1) have b: "off + typeWidths typ \<le> length m"
    and m': "m' = take off m @ le_bytes (typeWidths typ) v @ drop (off + typeWidths typ) m"
    by (auto simp: writeCell_def split: if_splits)
  have len: "length m' = length m" using b by (simp add: m')
  from assms(2) have "take (typeWidths typ') (drop off' m') = take (typeWidths typ') (drop off' m)"
  proof
    assume "off' + typeWidths typ' \<le> off"
    then show ?thesis unfolding m' by (rule slice_write_before [OF b])
  next
    assume "off + typeWidths typ \<le> off'"
    then show ?thesis unfolding m'
      using slice_write_after [OF b, of "le_bytes (typeWidths typ) v" off'] by simp
  qed
  then show ?thesis by (simp add: readCell_def len)
qed

section \<open>Integer cells\<close>

lemma typeWidths_pos: "0 < typeWidths typ"
  by (cases "typ") auto

lemma pow256: "(256::nat) ^ n = 2 ^ (8 * n)"
  by (simp add: power_mult)

lemma intBits_bound: "intBits typ i < 256 ^ typeWidths typ"
proof -
  have "i mod 2 ^ (8 * typeWidths typ) < 2 ^ (8 * typeWidths typ)" by simp
  moreover have "0 \<le> i mod 2 ^ (8 * typeWidths typ)" by simp
  ultimately have "nat (i mod 2 ^ (8 * typeWidths typ)) < 2 ^ (8 * typeWidths typ)"
    by (metis nat_less_numeral_power_cancel_iff)
  then show ?thesis by (simp add: intBits_def pow256)
qed

lemma wrap_signed:
  assumes "- N \<le> i" "i < N"
  shows "(i::int) mod (2 * N) = (if i < 0 then i + 2 * N else i)"
proof (cases "i < 0")
  case True
  have "(i + 2 * N) mod (2 * N) = i + 2 * N"
    using assms True by (intro mod_pos_pos_trivial) auto
  then show ?thesis using True by simp
next
  case False
  then show ?thesis using assms by (simp add: mod_pos_pos_trivial)
qed

lemma intValue_intBits:
  assumes "isIntType typ" "typeMins typ \<le> i" "i \<le> typeMaxes typ"
  shows "intValue typ (intBits typ i) = i"
proof (cases "typ")
  case TypeUint8
  then show ?thesis using assms by (simp add: intValue_def intBits_def typeMins_def)
next
  case TypeInt8
  then show ?thesis using assms wrap_signed [of 128 i]
    by (auto simp: intValue_def intBits_def typeMins_def)
next
  case TypeUint16
  then show ?thesis using assms by (simp add: intValue_def intBits_def typeMins_def)
next
  case TypeInt16
  then show ?thesis using assms wrap_signed [of 32768 i]
    by (auto simp: intValue_def intBits_def typeMins_def)
next
  case TypeUint32
  then show ?thesis using assms by (simp add: intValue_def intBits_def typeMins_def)
next
  case TypeInt32
  then show ?thesis using assms wrap_signed [of 2147483648 i]
    by (auto simp: intValue_def intBits_def typeMins_def)
next
  case TypeFloat32
  then show ?thesis using assms by simp
qed

lemma intBits_intValue:
  assumes "isIntType typ" "a < 256 ^ typeWidths typ"
  shows "intBits typ (intValue typ a) = a"
proof -
  have "intValue typ a mod 2 ^ (8 * typeWidths typ) = int a mod 2 ^ (8 * typeWidths typ)"
    by (simp add: intValue_def)
  also have "\<dots> = int a"
    using assms(2) by (simp add: pow256 flip: of_nat_power)
  finally show ?thesis by (simp add: intBits_def)
qed

lemma goTruncate_idem: "goTruncate (of_int (goTruncate q)) = goTruncate q"
  by (simp add: goTruncate_def)

section \<open>Filters on numeric columns\<close>

text \<open>The value a filter compares with: the conversion of the \<open>float64\<close> it is given,
  read back as an integer of the column's type.\<close>

lemma intValue_convFloat64:
  assumes "ty \<noteq> TypeFloat32"
  shows "intValue ty (convFloat64 mc ty q)
         = (if typeMins ty \<le> goTruncate q
               \<and> goTruncate q \<le> typeMaxes ty
            then goTruncate q
            else intValue ty (convOutOfRange mc ty q))"
proof -
  from assms have i: "isIntType ty" by (cases ty) simp_all
  show ?thesis
    using assms intValue_intBits [OF i, of "goTruncate q"]
    by (simp add: convFloat64_def inRange_def)
qed

lemma convFloat64_truncated:
  assumes "ty \<noteq> TypeFloat32"
      and "typeMins ty \<le> goTruncate q"
      and "goTruncate q \<le> typeMaxes ty"
  shows "convFloat64 mc ty (of_int (goTruncate q)) = convFloat64 mc ty q"
  using assms goTruncate_idem [of q]
  by (simp add: convFloat64_def inRange_def)

lemma goOperator_convFloat64:
  "goOperator mc ty flt c (convFloat64 mc ty q)
   = (if ty = TypeFloat32 then float32Compare mc flt c (float32OfFloat64 mc q)
      else (case flt of
              FilterEqual \<Rightarrow> (\<lambda>a b. a = b)
            | FilterNotEqual \<Rightarrow> (\<lambda>a b. a \<noteq> b)
            | FilterGreaterThan \<Rightarrow> (\<lambda>a b. a > b)
            | FilterGreaterThenOrEqual \<Rightarrow> (\<lambda>a b. a \<ge> b)
            | FilterLessThan \<Rightarrow> (\<lambda>a b. a < b)
            | FilterLessThanOrEqual \<Rightarrow> (\<lambda>a b. a \<le> b)
            | FilterIn \<Rightarrow> (\<lambda>a b. False))
             (intValue ty c)
             (if typeMins ty \<le> goTruncate q
                 \<and> goTruncate q \<le> typeMaxes ty
              then goTruncate q
              else intValue ty (convOutOfRange mc ty q)))"
proof (cases "ty = TypeFloat32")
  case True
  then show ?thesis by (simp add: goOperator_def convFloat64_def)
next
  case False
  show ?thesis
    unfolding goOperator_def intValue_convFloat64 [OF False]
    using False by (cases flt) simp_all
qed

lemma inTypedValues_convFloat64:
  "inTypedValues mc ty c (map (convFloat64 mc ty) qs)
   = (\<exists>q \<in> set qs.
        if ty = TypeFloat32 then float32Compare mc FilterEqual c (float32OfFloat64 mc q)
        else intValue ty c
             = (if typeMins ty \<le> goTruncate q
                   \<and> goTruncate q \<le> typeMaxes ty
                then goTruncate q
                else intValue ty (convOutOfRange mc ty q)))"
  unfolding inTypedValues_def set_map bex_simps(7) goOperator_convFloat64
  by (simp cong: bex_cong)

lemma floor_examples:
  "\<lfloor>27 / 10 :: rat\<rfloor> = 2" "\<lfloor>2559 / 10 :: rat\<rfloor> = 255" "\<lfloor>257 / 2 :: rat\<rfloor> = 128"
  "\<lfloor>3009 / 10 :: rat\<rfloor> = 300"
  by (simp_all add: floor_eq_iff)

text \<open>
  C10. Every filter over a numeric column that is not string-backed, a metric or a native
  dimension, with any of the operators \<open>=\<close>, \<open>\<noteq>\<close>, \<open>>\<close>, \<open>\<ge>\<close>, \<open><\<close>, \<open>\<le>\<close> and \<open>in\<close>,
  first converts the \<open>float64\<close> it is given to the column's type and then compares in
  that type, for each of the seven types and for every value. On a \<open>float32\<close> column the
  cell is compared, as a \<open>float32\<close>, with the \<open>float32\<close> conversion of the value. On an
  integer column the integer in the cell is compared with the value truncated towards
  zero (\<open>\<lfloor>x\<rfloor>\<close> for \<open>x \<ge> 0\<close>, \<open>- \<lfloor>- x\<rfloor>\<close> for \<open>x < 0\<close>) when the column's type can hold that
  integer, and with whatever the Go implementation converts the value to when it cannot.
  Hence, when the type can hold the truncated value, the filter built from a value is the
  filter built from its truncation: on a \<open>uint8\<close> column, 2.7 filters as 2 does, and on an
  \<open>int8\<close> column, -2.7 filters as -2 does.
\<close>

theorem filter_value_converted_C10:
  assumes "flt \<noteq> FilterIn"
  shows
    "let toward0 = (\<lambda>x :: rat. if x < 0 then - \<lfloor>- x\<rfloor> else \<lfloor>x\<rfloor>);
         fits = (\<lambda>x. typeMins ty \<le> toward0 x \<and> toward0 x \<le> typeMaxes ty);
         native = (\<lambda>x. if fits x then toward0 x else intValue ty (convOutOfRange mc ty x));
         op = (case flt of
                 FilterEqual \<Rightarrow> (\<lambda>(a :: int) b. a = b)
               | FilterNotEqual \<Rightarrow> (\<lambda>a b. a \<noteq> b)
               | FilterGreaterThan \<Rightarrow> (\<lambda>a b. a > b)
               | FilterGreaterThenOrEqual \<Rightarrow> (\<lambda>a b. a \<ge> b)
               | FilterLessThan \<Rightarrow> (\<lambda>a b. a < b)
               | FilterLessThanOrEqual \<Rightarrow> (\<lambda>a b. a \<le> b)
               | FilterIn \<Rightarrow> (\<lambda>a b. False));
         decide = (\<lambda>x c. if ty = TypeFloat32
                          then float32Compare mc flt c (float32OfFloat64 mc x)
                          else op (intValue ty c) (native x));
         among = (\<lambda>xs c. \<exists>x \<in> set xs.
                    if ty = TypeFloat32
                    then float32Compare mc FilterEqual c (float32OfFloat64 mc x)
                    else intValue ty c = native x)
     in (\<exists>mk. makeMetricFilterFuncSimpleGen mc ty flt = Some mk
           \<and> (\<forall>x offset row.
                 mk x offset row = map_option (decide x) (readCell ty row offset))
           \<and> (ty \<noteq> TypeFloat32 \<and> fits q \<longrightarrow> mk q = mk (of_int (toward0 q))))
      \<and> (\<exists>mk f. makeDimensionFilterFuncSimpleGen mc ty flt False = Some mk
           \<and> mk (UFloat64 q) nilOffset msk valueOffset = Some f
           \<and> (\<forall>row. nilBit row nilOffset msk = Some False \<longrightarrow>
                 f row = map_option (decide q) (readCell ty row valueOffset))
           \<and> (ty \<noteq> TypeFloat32 \<and> fits q \<longrightarrow>
                 mk (UFloat64 q) = mk (UFloat64 (of_int (toward0 q)))))
      \<and> (\<forall>offset row.
            makeMetricFilterFuncInGen mc ty qs offset row
            = map_option (among qs) (readCell ty row offset))
      \<and> (\<exists>f. makeDimensionFilterFuncInGen mc ty False (UFloat64s qs) acceptNil nilOffset msk
                valueOffset = Some f
            \<and> (\<forall>row. nilBit row nilOffset msk = Some False \<longrightarrow>
                  f row = map_option (among qs) (readCell ty row valueOffset)))
      \<and> (ty \<noteq> TypeFloat32 \<and> (\<forall>x \<in> set qs. fits x) \<longrightarrow>
            makeMetricFilterFuncInGen mc ty (map (\<lambda>x. of_int (toward0 x)) qs)
              = makeMetricFilterFuncInGen mc ty qs
            \<and> makeDimensionFilterFuncInGen mc ty False
                  (UFloat64s (map (\<lambda>x. of_int (toward0 x)) qs))
              = makeDimensionFilterFuncInGen mc ty False (UFloat64s qs))"
proof -
  have simple: "flt \<in> set SimpleFilterTypes"
    using assms by (cases flt) (simp_all add: SimpleFilterTypes_def)
  have conv: "convFloat64 mc ty (of_int (goTruncate x)) = convFloat64 mc ty x"
    if "ty \<noteq> TypeFloat32"
      and "typeMins ty \<le> goTruncate x
           \<and> goTruncate x \<le> typeMaxes ty" for x
    using that convFloat64_truncated [of ty x mc] by simp
  have convs: "map (convFloat64 mc ty) (map (\<lambda>x. of_int (goTruncate x)) qs)
               = map (convFloat64 mc ty) qs"
    if "ty \<noteq> TypeFloat32"
      and "\<forall>x \<in> set qs. typeMins ty \<le> goTruncate x
           \<and> goTruncate x \<le> typeMaxes ty"
    using that conv by simp
  have m: "\<exists>mk. makeMetricFilterFuncSimpleGen mc ty flt = Some mk
           \<and> (\<forall>x offset row.
                 mk x offset row
                 = map_option (\<lambda>c. goOperator mc ty flt c (convFloat64 mc ty x))
                     (readCell ty row offset))
           \<and> (ty \<noteq> TypeFloat32
                 \<and> typeMins ty \<le> goTruncate q
                 \<and> goTruncate q \<le> typeMaxes ty
               \<longrightarrow> mk q = mk (of_int (goTruncate q)))"
    using simple conv [of q] by (simp add: makeMetricFilterFuncSimpleGen_def)
  have d: "\<exists>mk f. makeDimensionFilterFuncSimpleGen mc ty flt False = Some mk
           \<and> mk (UFloat64 q) nilOffset msk valueOffset = Some f
           \<and> (\<forall>row. nilBit row nilOffset msk = Some False \<longrightarrow>
                 f row = map_option (\<lambda>c. goOperator mc ty flt c (convFloat64 mc ty q))
                           (readCell ty row valueOffset))
           \<and> (ty \<noteq> TypeFloat32
                 \<and> typeMins ty \<le> goTruncate q
                 \<and> goTruncate q \<le> typeMaxes ty
               \<longrightarrow> mk (UFloat64 q) = mk (UFloat64 (of_int (goTruncate q))))"
    using simple conv [of q]
    by (auto simp add: makeDimensionFilterFuncSimpleGen_def cong: option.case_cong bool.case_cong)
  have mi: "\<forall>offset row.
            makeMetricFilterFuncInGen mc ty qs offset row
            = map_option (\<lambda>c. inTypedValues mc ty c (map (convFloat64 mc ty) qs))
                (readCell ty row offset)"
    by (simp add: makeMetricFilterFuncInGen_def)
  have di: "\<exists>f. makeDimensionFilterFuncInGen mc ty False (UFloat64s qs) acceptNil nilOffset msk
                  valueOffset = Some f
              \<and> (\<forall>row. nilBit row nilOffset msk = Some False \<longrightarrow>
                    f row = map_option (\<lambda>c. inTypedValues mc ty c (map (convFloat64 mc ty) qs))
                              (readCell ty row valueOffset))"
    by (simp add: makeDimensionFilterFuncInGen_def)
  have e: "makeMetricFilterFuncInGen mc ty
              (map (\<lambda>x. of_int (goTruncate x)) qs)
              = makeMetricFilterFuncInGen mc ty qs
            \<and> makeDimensionFilterFuncInGen mc ty False
                  (UFloat64s (map (\<lambda>x. of_int (goTruncate x)) qs))
              = makeDimensionFilterFuncInGen mc ty False (UFloat64s qs)"
    if "ty \<noteq> TypeFloat32"
      and "\<forall>x \<in> set qs. typeMins ty \<le> goTruncate x
           \<and> goTruncate x \<le> typeMaxes ty"
  proof
    show "makeMetricFilterFuncInGen mc ty
              (map (\<lambda>x. of_int (goTruncate x)) qs)
              = makeMetricFilterFuncInGen mc ty qs"
      by (intro ext) (simp only: makeMetricFilterFuncInGen_def convs [OF that])
    show "makeDimensionFilterFuncInGen mc ty False
                  (UFloat64s (map (\<lambda>x. of_int (goTruncate x)) qs))
              = makeDimensionFilterFuncInGen mc ty False (UFloat64s qs)"
      by (intro ext)
        (simp only: makeDimensionFilterFuncInGen_def assertFloat64s.simps if_False option.map
          convs [OF that])
  qed
  have gt: "(\<lambda>x :: rat. if x < 0 then - \<lfloor>- x\<rfloor> else \<lfloor>x\<rfloor>) = goTruncate"
    by (simp add: fun_eq_iff goTruncate_def)
  show ?thesis
    unfolding gt Let_def
    using m d mi di e
    unfolding goOperator_convFloat64 inTypedValues_convFloat64
    by blast
qed

theorem filter_value_converted_C10_witness:
  "(\<exists>mk. makeMetricFilterFuncSimpleGen someMachine TypeUint8 FilterEqual = Some mk
       \<and> mk 2.7 0 [2] = Some True \<and> mk 2.7 0 [3] = Some False \<and> mk 2.7 = mk 2
       \<and> mk 255.9 0 [0xFF] = Some True)
   \<and> (\<exists>mk. makeMetricFilterFuncSimpleGen someMachine TypeUint8 FilterNotEqual = Some mk
       \<and> mk 2.7 0 [2] = Some False \<and> mk 2.7 0 [3] = Some True \<and> mk 2.7 = mk 2)
   \<and> (\<exists>mk. makeMetricFilterFuncSimpleGen someMachine TypeUint8 FilterLessThan = Some mk
       \<and> mk 2.7 0 [1] = Some True \<and> mk 2.7 0 [2] = Some False \<and> mk 2.7 = mk 2)
   \<and> (\<exists>mk. makeMetricFilterFuncSimpleGen someMachine TypeUint8 FilterLessThanOrEqual = Some mk
       \<and> mk 2.7 0 [2] = Some True \<and> mk 2.7 0 [3] = Some False \<and> mk 2.7 = mk 2)
   \<and> (\<exists>mk. makeMetricFilterFuncSimpleGen someMachine TypeInt8 FilterEqual = Some mk
       \<and> mk (- 2.7) 0 [0xFE] = Some True \<and> mk (- 2.7) 0 [0xFD] = Some False
       \<and> mk (- 2.7) = mk (- 2) \<and> mk (- 128.5) 0 [0x80] = Some True)
   \<and> (\<exists>mk. makeMetricFilterFuncSimpleGen someMachine TypeInt8 FilterGreaterThan = Some mk
       \<and> mk (- 2.7) 0 [0xFF] = Some True \<and> mk (- 2.7) 0 [0xFE] = Some False
       \<and> mk (- 2.7) = mk (- 2))
   \<and> (\<exists>mk. makeMetricFilterFuncSimpleGen someMachine TypeInt8 FilterGreaterThenOrEqual = Some mk
       \<and> mk (- 2.7) 0 [0xFE] = Some True \<and> mk (- 2.7) 0 [0xFD] = Some False
       \<and> mk (- 2.7) = mk (- 2))
   \<and> (\<exists>mk f. makeDimensionFilterFuncSimpleGen someMachine TypeUint16 FilterEqual False = Some mk
       \<and> mk (UFloat64 300.9) 0 1 1 = Some f
       \<and> f [0, 0x2C, 0x01] = Some True \<and> f [0, 0x2D, 0x01] = Some False
       \<and> mk (UFloat64 300.9) = mk (UFloat64 300))
   \<and> makeMetricFilterFuncInGen someMachine TypeUint8 [2.7, 5] 0 [2] = Some True
   \<and> makeMetricFilterFuncInGen someMachine TypeUint8 [2.7, 5] 0 [5] = Some True
   \<and> makeMetricFilterFuncInGen someMachine TypeUint8 [2.7, 5] 0 [3] = Some False
   \<and> makeMetricFilterFuncInGen someMachine TypeUint8 [2, 5]
       = makeMetricFilterFuncInGen someMachine TypeUint8 [2.7, 5]
   \<and> (\<exists>f. makeDimensionFilterFuncInGen someMachine TypeInt8 False (UFloat64s [- 2.7]) False 0 1 1
             = Some f
       \<and> f [0, 0xFE] = Some True \<and> f [0, 0xFD] = Some False)
   \<and> makeDimensionFilterFuncInGen someMachine TypeInt8 False (UFloat64s [- 2])
       = makeDimensionFilterFuncInGen someMachine TypeInt8 False (UFloat64s [- 2.7])"
proof -
  note th = filter_value_converted_C10 [where mc = someMachine and nilOffset = 0 and msk = 1
      and valueOffset = 1 and acceptNil = False]
  note ev = Let_def SimpleFilterTypes_def readCell_def intValue_def typeMins_def nilBit_def
    floor_examples
  have a: "\<exists>mk. makeMetricFilterFuncSimpleGen someMachine TypeUint8 FilterEqual = Some mk
       \<and> mk 2.7 0 [2] = Some True \<and> mk 2.7 0 [3] = Some False \<and> mk 2.7 = mk 2
       \<and> mk 255.9 0 [0xFF] = Some True"
    using th [where flt = FilterEqual and ty = TypeUint8 and q = "2.7" and qs = "[]"]
    by (auto simp: ev)
  have b: "\<exists>mk. makeMetricFilterFuncSimpleGen someMachine TypeUint8 FilterNotEqual = Some mk
       \<and> mk 2.7 0 [2] = Some False \<and> mk 2.7 0 [3] = Some True \<and> mk 2.7 = mk 2"
    using th [where flt = FilterNotEqual and ty = TypeUint8 and q = "2.7" and qs = "[]"]
    by (auto simp: ev)
  have c: "\<exists>mk. makeMetricFilterFuncSimpleGen someMachine TypeUint8 FilterLessThan = Some mk
       \<and> mk 2.7 0 [1] = Some True \<and> mk 2.7 0 [2] = Some False \<and> mk 2.7 = mk 2"
    using th [where flt = FilterLessThan and ty = TypeUint8 and q = "2.7" and qs = "[]"]
    by (auto simp: ev)
  have d: "\<exists>mk. makeMetricFilterFuncSimpleGen someMachine TypeUint8 FilterLessThanOrEqual = Some mk
       \<and> mk 2.7 0 [2] = Some True \<and> mk 2.7 0 [3] = Some False \<and> mk 2.7 = mk 2"
    using th [where flt = FilterLessThanOrEqual and ty = TypeUint8 and q = "2.7" and qs = "[]"]
    by (auto simp: ev)
  have e: "\<exists>mk. makeMetricFilterFuncSimpleGen someMachine TypeInt8 FilterEqual = Some mk
       \<and> mk (- 2.7) 0 [0xFE] = Some True \<and> mk (- 2.7) 0 [0xFD] = Some False
       \<and> mk (- 2.7) = mk (- 2) \<and> mk (- 128.5) 0 [0x80] = Some True"
    using th [where flt = FilterEqual and ty = TypeInt8 and q = "- 2.7" and qs = "[]"]
    by (auto simp: ev)
  have f: "\<exists>mk. makeMetricFilterFuncSimpleGen someMachine TypeInt8 FilterGreaterThan = Some mk
       \<and> mk (- 2.7) 0 [0xFF] = Some True \<and> mk (- 2.7) 0 [0xFE] = Some False
       \<and> mk (- 2.7) = mk (- 2)"
    using th [where flt = FilterGreaterThan and ty = TypeInt8 and q = "- 2.7" and qs = "[]"]
    by (auto simp: ev)
  have g: "\<exists>mk. makeMetricFilterFuncSimpleGen someMachine TypeInt8 FilterGreaterThenOrEqual = Some mk
       \<and> mk (- 2.7) 0 [0xFE] = Some True \<and> mk (- 2.7) 0 [0xFD] = Some False
       \<and> mk (- 2.7) = mk (- 2)"
    using th [where flt = FilterGreaterThenOrEqual and ty = TypeInt8 and q = "- 2.7"
        and qs = "[]"]
    by (auto simp: ev)
  have h: "\<exists>mk f. makeDimensionFilterFuncSimpleGen someMachine TypeUint16 FilterEqual False = Some mk
       \<and> mk (UFloat64 300.9) 0 1 1 = Some f
       \<and> f [0, 0x2C, 0x01] = Some True \<and> f [0, 0x2D, 0x01] = Some False
       \<and> mk (UFloat64 300.9) = mk (UFloat64 300)"
    using th [where flt = FilterEqual and ty = TypeUint16 and q = "300.9" and qs = "[]"]
    by (auto simp: ev)
  have i: "makeMetricFilterFuncInGen someMachine TypeUint8 [2.7, 5] 0 [2] = Some True
       \<and> makeMetricFilterFuncInGen someMachine TypeUint8 [2.7, 5] 0 [5] = Some True
       \<and> makeMetricFilterFuncInGen someMachine TypeUint8 [2.7, 5] 0 [3] = Some False
       \<and> makeMetricFilterFuncInGen someMachine TypeUint8 [2, 5]
           = makeMetricFilterFuncInGen someMachine TypeUint8 [2.7, 5]"
    using th [where flt = FilterEqual and ty = TypeUint8 and q = 0 and qs = "[2.7, 5]"]
    by (auto simp: ev)
  have j: "(\<exists>f. makeDimensionFilterFuncInGen someMachine TypeInt8 False (UFloat64s [- 2.7]) False 0 1 1
             = Some f
       \<and> f [0, 0xFE] = Some True \<and> f [0, 0xFD] = Some False)
     \<and> makeDimensionFilterFuncInGen someMachine TypeInt8 False (UFloat64s [- 2])
       = makeDimensionFilterFuncInGen someMachine TypeInt8 False (UFloat64s [- 2.7])"
    using th [where flt = FilterEqual and ty = TypeInt8 and q = 0 and qs = "[- 2.7]"]
    by (auto simp: ev)
  from a b c d e f g h i j show ?thesis by blast
qed

section \<open>Nil policy of the dimension filters\<close>

lemma those_map_Some:
  assumes "\<forall>x \<in> set xs. \<exists>y. f x = Some y"
  shows "\<exists>ys. those (map f xs) = Some ys"
  using assms by (induction xs) auto

lemma simple_filter_on_nil:
  assumes "nilBit row nilOffset msk = Some True"
      and "flt \<in> set SimpleFilterTypes"
      and "val = (if isString then UUint32 w else UFloat64 q)"
  shows "\<exists>mk f. makeDimensionFilterFuncSimpleGen mc ty flt isString = Some mk
           \<and> mk val nilOffset msk valueOffset = Some f \<and> f row = Some (flt = FilterNotEqual)"
  using assms by (auto simp: makeDimensionFilterFuncSimpleGen_def)

lemma in_filter_on_nil:
  assumes "nilBit row nilOffset msk = Some True"
      and "if String col then \<forall>v \<in> set vals. v = UNil \<or> (\<exists>str. v = UString str)
           else \<forall>v \<in> set vals. v = UNil \<or> (\<exists>q. v = UFloat64 q)"
  shows "\<exists>f. compileDimensionIn mc col tbl vals nilOffset msk valueOffset = Inr f
           \<and> f row = Some (UNil \<in> set vals)"
proof (cases "String col")
  case True
  then have "\<forall>v \<in> set (filter (\<lambda>v. v \<noteq> UNil) vals). \<exists>str. assertString v = Some str"
    using assms(2) by auto
  then obtain strs where "those (map assertString (filter (\<lambda>v. v \<noteq> UNil) vals)) = Some strs"
    using those_map_Some by blast
  then show ?thesis using True assms(1)
    by (simp add: compileDimensionIn_def makeDimensionFilterFuncInGen_def orPanic_def)
next
  case False
  then have "\<forall>v \<in> set (filter (\<lambda>v. v \<noteq> UNil) vals). \<exists>q. assertFloat64 v = Some q"
    using assms(2) by auto
  then obtain qs where "those (map assertFloat64 (filter (\<lambda>v. v \<noteq> UNil) vals)) = Some qs"
    using those_map_Some by blast
  then show ?thesis using False assms(1)
    by (simp add: compileDimensionIn_def makeDimensionFilterFuncInGen_def orPanic_def)
qed

lemma nil_filter_on_nil:
  assumes "nilBit row nilOffset msk = Some True" and "flt \<in> set SimpleFilterTypes"
  shows "\<exists>mk. makeNilFilterFuncSimpleGen ty flt = Some mk
           \<and> mk nilOffset msk row = Some (flt = FilterEqual)"
  using assms by (simp add: makeNilFilterFuncSimpleGen_def)

lemma nil_filter_on_value:
  assumes "nilBit row nilOffset msk = Some False" and "flt \<in> set SimpleFilterTypes"
  shows "\<exists>mk. makeNilFilterFuncSimpleGen ty flt = Some mk
           \<and> mk nilOffset msk row = Some (flt = FilterNotEqual)"
  using assms by (simp add: makeNilFilterFuncSimpleGen_def)

text \<open>
  C2. A compiled filter on a nullable dimension column, applied to a row in which that
  column is nil (its nil bit is set). Against a non-nil value (a dimension-table id for a
  string column, a number for a native one), for every column type: \<open>=\<close> is false,
  \<open>\<noteq>\<close> is true and each of \<open><\<close>, \<open>\<le>\<close>, \<open>>\<close>, \<open>\<ge>\<close> is false. Against nil (the nil
  filter of the helpers): \<open>=\<close> is true, \<open>\<noteq>\<close> is false and each ordering comparison is
  false. An \<open>in\<close> filter returns the \<open>acceptNil\<close> it was built with, which the compiler
  sets to whether the list contains nil. None of the filters panics on such a row. (On a
  row in which the column is not nil, the nil filter is true for \<open>\<noteq>\<close> and false for
  every other operator.)
\<close>

theorem nil_policy_C2:
  assumes "nilBit row nilOffset msk = Some True"
  shows "(\<exists>mk f. makeDimensionFilterFuncSimpleGen mc ty FilterEqual isString = Some mk
            \<and> mk (if isString then UUint32 w else UFloat64 q) nilOffset msk valueOffset = Some f
            \<and> f row = Some False)
       \<and> (\<exists>mk f. makeDimensionFilterFuncSimpleGen mc ty FilterNotEqual isString = Some mk
            \<and> mk (if isString then UUint32 w else UFloat64 q) nilOffset msk valueOffset = Some f
            \<and> f row = Some True)
       \<and> (\<forall>flt \<in> {FilterLessThan, FilterLessThanOrEqual, FilterGreaterThan,
                    FilterGreaterThenOrEqual}.
            \<exists>mk f. makeDimensionFilterFuncSimpleGen mc ty flt isString = Some mk
            \<and> mk (if isString then UUint32 w else UFloat64 q) nilOffset msk valueOffset = Some f
            \<and> f row = Some False)
       \<and> (\<exists>mk. makeNilFilterFuncSimpleGen ty FilterEqual = Some mk
            \<and> mk nilOffset msk row = Some True)
       \<and> (\<exists>mk. makeNilFilterFuncSimpleGen ty FilterNotEqual = Some mk
            \<and> mk nilOffset msk row = Some False)
       \<and> (\<forall>flt \<in> {FilterLessThan, FilterLessThanOrEqual, FilterGreaterThan,
                    FilterGreaterThenOrEqual}.
            \<exists>mk. makeNilFilterFuncSimpleGen ty flt = Some mk
            \<and> mk nilOffset msk row = Some False)
       \<and> (\<forall>other flt. nilBit other nilOffset msk = Some False \<and> flt \<noteq> FilterIn \<longrightarrow>
            (\<exists>mk. makeNilFilterFuncSimpleGen ty flt = Some mk
               \<and> mk nilOffset msk other = Some (flt = FilterNotEqual)))
       \<and> (\<forall>typedVals acceptNil f.
            makeDimensionFilterFuncInGen mc ty isString typedVals acceptNil nilOffset msk
              valueOffset = Some f \<longrightarrow> f row = Some acceptNil)
       \<and> ((if String col then \<forall>v \<in> set vals. v = UNil \<or> (\<exists>str. v = UString str)
            else \<forall>v \<in> set vals. v = UNil \<or> (\<exists>q'. v = UFloat64 q')) \<longrightarrow>
           (\<exists>f. compileDimensionIn mc col tbl vals nilOffset msk valueOffset = Inr f
              \<and> f row = Some (UNil \<in> set vals)))"
proof -
  have eq: "\<exists>mk f. makeDimensionFilterFuncSimpleGen mc ty FilterEqual isString = Some mk
            \<and> mk (if isString then UUint32 w else UFloat64 q) nilOffset msk valueOffset = Some f
            \<and> f row = Some False"
    using simple_filter_on_nil [OF assms(1) _ refl, of FilterEqual mc ty isString w q valueOffset]
    by (simp add: SimpleFilterTypes_def)
  have ne: "\<exists>mk f. makeDimensionFilterFuncSimpleGen mc ty FilterNotEqual isString = Some mk
            \<and> mk (if isString then UUint32 w else UFloat64 q) nilOffset msk valueOffset = Some f
            \<and> f row = Some True"
    using simple_filter_on_nil [OF assms(1) _ refl, of FilterNotEqual mc ty isString w q valueOffset]
    by (simp add: SimpleFilterTypes_def)
  have ord: "\<exists>mk f. makeDimensionFilterFuncSimpleGen mc ty flt isString = Some mk
            \<and> mk (if isString then UUint32 w else UFloat64 q) nilOffset msk valueOffset = Some f
            \<and> f row = Some False"
    if "flt \<in> {FilterLessThan, FilterLessThanOrEqual, FilterGreaterThan,
                 FilterGreaterThenOrEqual}" for flt
  proof -
    from that have "flt \<in> set SimpleFilterTypes" and "flt \<noteq> FilterNotEqual"
      by (auto simp: SimpleFilterTypes_def)
    then show ?thesis
      using simple_filter_on_nil [OF assms(1) _ refl, of flt mc ty isString w q valueOffset] by simp
  qed
  have neq: "\<exists>mk. makeNilFilterFuncSimpleGen ty FilterEqual = Some mk
            \<and> mk nilOffset msk row = Some True"
    using nil_filter_on_nil [OF assms(1), of FilterEqual ty] by (simp add: SimpleFilterTypes_def)
  have nne: "\<exists>mk. makeNilFilterFuncSimpleGen ty FilterNotEqual = Some mk
            \<and> mk nilOffset msk row = Some False"
    using nil_filter_on_nil [OF assms(1), of FilterNotEqual ty]
    by (simp add: SimpleFilterTypes_def)
  have nord: "\<exists>mk. makeNilFilterFuncSimpleGen ty flt = Some mk
            \<and> mk nilOffset msk row = Some False"
    if "flt \<in> {FilterLessThan, FilterLessThanOrEqual, FilterGreaterThan,
                 FilterGreaterThenOrEqual}" for flt
  proof -
    from that have "flt \<in> set SimpleFilterTypes" and "flt \<noteq> FilterEqual"
      by (auto simp: SimpleFilterTypes_def)
    then show ?thesis using nil_filter_on_nil [OF assms(1), of flt ty] by simp
  qed
  have nval: "\<exists>mk. makeNilFilterFuncSimpleGen ty flt = Some mk
               \<and> mk nilOffset msk other = Some (flt = FilterNotEqual)"
    if "nilBit other nilOffset msk = Some False \<and> flt \<noteq> FilterIn" for other flt
  proof -
    from that have "flt \<in> set SimpleFilterTypes"
      by (cases flt) (simp_all add: SimpleFilterTypes_def)
    then show ?thesis using that nil_filter_on_value by blast
  qed
  have inGen: "f row = Some acceptNil"
    if "makeDimensionFilterFuncInGen mc ty isString typedVals acceptNil nilOffset msk
          valueOffset = Some f" for typedVals acceptNil f
    using that assms(1)
    by (auto simp: makeDimensionFilterFuncInGen_def split: option.splits if_splits)
  have inC: "\<exists>f. compileDimensionIn mc col tbl vals nilOffset msk valueOffset = Inr f
              \<and> f row = Some (UNil \<in> set vals)"
    if "if String col then \<forall>v \<in> set vals. v = UNil \<or> (\<exists>str. v = UString str)
        else \<forall>v \<in> set vals. v = UNil \<or> (\<exists>q'. v = UFloat64 q')"
    using in_filter_on_nil [OF assms(1) that] .
  show ?thesis using eq ne ord neq nne nord nval inGen inC by blast
qed

theorem nil_policy_C2_witness:
  "nilBit [1, 0, 0, 0, 0, 0] 0 1 = Some True
   \<and> (\<exists>mk f. makeDimensionFilterFuncSimpleGen someMachine TypeUint8 FilterEqual True = Some mk
         \<and> mk (UUint32 0) 0 1 5 = Some f \<and> f [1, 0, 0, 0, 0, 0] = Some False)
   \<and> (\<exists>mk f. makeDimensionFilterFuncSimpleGen someMachine TypeUint8 FilterNotEqual True = Some mk
         \<and> mk (UUint32 0) 0 1 5 = Some f \<and> f [1, 0, 0, 0, 0, 0] = Some True)
   \<and> (\<exists>mk f. makeDimensionFilterFuncSimpleGen someMachine TypeUint8 FilterLessThanOrEqual True
           = Some mk
         \<and> mk (UUint32 0) 0 1 5 = Some f \<and> f [1, 0, 0, 0, 0, 0] = Some False)
   \<and> (\<exists>mk f. makeDimensionFilterFuncSimpleGen someMachine TypeUint8 FilterGreaterThenOrEqual
           True = Some mk
         \<and> mk (UUint32 0) 0 1 5 = Some f \<and> f [1, 0, 0, 0, 0, 0] = Some False)
   \<and> (\<exists>mk. makeNilFilterFuncSimpleGen TypeUint8 FilterEqual = Some mk
         \<and> mk 0 1 [1, 0, 0, 0, 0, 0] = Some True)
   \<and> (\<exists>mk. makeNilFilterFuncSimpleGen TypeUint8 FilterNotEqual = Some mk
         \<and> mk 0 1 [1, 0, 0, 0, 0, 0] = Some False)
   \<and> (\<exists>mk. makeNilFilterFuncSimpleGen TypeUint8 FilterLessThan = Some mk
         \<and> mk 0 1 [1, 0, 0, 0, 0, 0] = Some False)
   \<and> (\<exists>mk. makeNilFilterFuncSimpleGen TypeUint8 FilterGreaterThan = Some mk
         \<and> mk 0 1 [1, 0, 0, 0, 0, 0] = Some False)
   \<and> (\<exists>mk. makeNilFilterFuncSimpleGen TypeUint8 FilterEqual = Some mk
         \<and> mk 0 1 [0, 0, 0, 0, 0, 0] = Some False)
   \<and> (\<exists>mk. makeNilFilterFuncSimpleGen TypeUint8 FilterNotEqual = Some mk
         \<and> mk 0 1 [0, 0, 0, 0, 0, 0] = Some True)
   \<and> (\<exists>mk. makeNilFilterFuncSimpleGen TypeUint8 FilterLessThan = Some mk
         \<and> mk 0 1 [0, 0, 0, 0, 0, 0] = Some False)
   \<and> (\<exists>f. compileDimensionIn someMachine \<lparr>Name = ''dim1'', ColType = TypeUint8, String = True\<rparr>
              [''a'', ''b''] [UString ''b'', UNil] 0 1 5 = Inr f
         \<and> f [1, 0, 0, 0, 0, 0] = Some True)
   \<and> (\<exists>f. compileDimensionIn someMachine \<lparr>Name = ''dim1'', ColType = TypeUint8, String = True\<rparr>
              [''a'', ''b''] [UString ''b''] 0 1 5 = Inr f
         \<and> f [1, 0, 0, 0, 0, 0] = Some False)"
proof -
  have n: "nilBit [1, 0, 0, 0, 0, 0] 0 1 = Some True" by (simp add: nilBit_def)
  have v: "nilBit [0, 0, 0, 0, 0, 0] 0 1 = Some False" by (simp add: nilBit_def)
  note th = nil_policy_C2 [OF n, where mc = someMachine and ty = TypeUint8
      and isString = True and w = 0 and q = 0
      and valueOffset = 5 and col = "\<lparr>Name = ''dim1'', ColType = TypeUint8, String = True\<rparr>"
      and tbl = "[''a'', ''b'']"]
  from th [where vals = "[UString ''b'', UNil]"] th [where vals = "[UString ''b'']"]
  have a: "nilBit [1, 0, 0, 0, 0, 0] 0 1 = Some True
   \<and> (\<exists>mk f. makeDimensionFilterFuncSimpleGen someMachine TypeUint8 FilterEqual True = Some mk
         \<and> mk (UUint32 0) 0 1 5 = Some f \<and> f [1, 0, 0, 0, 0, 0] = Some False)
   \<and> (\<exists>mk f. makeDimensionFilterFuncSimpleGen someMachine TypeUint8 FilterNotEqual True = Some mk
         \<and> mk (UUint32 0) 0 1 5 = Some f \<and> f [1, 0, 0, 0, 0, 0] = Some True)
   \<and> (\<exists>mk f. makeDimensionFilterFuncSimpleGen someMachine TypeUint8 FilterLessThanOrEqual True
           = Some mk
         \<and> mk (UUint32 0) 0 1 5 = Some f \<and> f [1, 0, 0, 0, 0, 0] = Some False)
   \<and> (\<exists>mk f. makeDimensionFilterFuncSimpleGen someMachine TypeUint8 FilterGreaterThenOrEqual
           True = Some mk
         \<and> mk (UUint32 0) 0 1 5 = Some f \<and> f [1, 0, 0, 0, 0, 0] = Some False)
   \<and> (\<exists>mk. makeNilFilterFuncSimpleGen TypeUint8 FilterEqual = Some mk
         \<and> mk 0 1 [1, 0, 0, 0, 0, 0] = Some True)
   \<and> (\<exists>mk. makeNilFilterFuncSimpleGen TypeUint8 FilterNotEqual = Some mk
         \<and> mk 0 1 [1, 0, 0, 0, 0, 0] = Some False)
   \<and> (\<exists>mk. makeNilFilterFuncSimpleGen TypeUint8 FilterLessThan = Some mk
         \<and> mk 0 1 [1, 0, 0, 0, 0, 0] = Some False)
   \<and> (\<exists>mk. makeNilFilterFuncSimpleGen TypeUint8 FilterGreaterThan = Some mk
         \<and> mk 0 1 [1, 0, 0, 0, 0, 0] = Some False)
   \<and> (\<exists>f. compileDimensionIn someMachine \<lparr>Name = ''dim1'', ColType = TypeUint8, String = True\<rparr>
              [''a'', ''b''] [UString ''b'', UNil] 0 1 5 = Inr f
         \<and> f [1, 0, 0, 0, 0, 0] = Some True)
   \<and> (\<exists>f. compileDimensionIn someMachine \<lparr>Name = ''dim1'', ColType = TypeUint8, String = True\<rparr>
              [''a'', ''b''] [UString ''b''] 0 1 5 = Inr f
         \<and> f [1, 0, 0, 0, 0, 0] = Some False)"
    using n by simp
  from th [where vals = "[]"]
  have nv: "\<forall>other flt. nilBit other 0 1 = Some False \<and> flt \<noteq> FilterIn \<longrightarrow>
            (\<exists>mk. makeNilFilterFuncSimpleGen TypeUint8 flt = Some mk
               \<and> mk 0 1 other = Some (flt = FilterNotEqual))"
    by blast
  from nv [rule_format, of "[0, 0, 0, 0, 0, 0]" FilterEqual]
    nv [rule_format, of "[0, 0, 0, 0, 0, 0]" FilterNotEqual]
    nv [rule_format, of "[0, 0, 0, 0, 0, 0]" FilterLessThan] v
  have b: "(\<exists>mk. makeNilFilterFuncSimpleGen TypeUint8 FilterEqual = Some mk
         \<and> mk 0 1 [0, 0, 0, 0, 0, 0] = Some False)
   \<and> (\<exists>mk. makeNilFilterFuncSimpleGen TypeUint8 FilterNotEqual = Some mk
         \<and> mk 0 1 [0, 0, 0, 0, 0, 0] = Some True)
   \<and> (\<exists>mk. makeNilFilterFuncSimpleGen TypeUint8 FilterLessThan = Some mk
         \<and> mk 0 1 [0, 0, 0, 0, 0, 0] = Some False)"
    by simp
  from a b show ?thesis by blast
qed
section \<open>Overflow of a metric on collapse\<close>

text \<open>\<open>MetricBytes.add\<close> itself wraps around: on a \<open>uint8\<close> column, 200 + 100 is stored as
  44, and nothing is reported.\<close>

lemma add_wraps_around_example:
  "add someMachine overflowSchema [200] [100] = Some [44]"
  by (simp add: add_def overflowSchema_def schemaFixture_def nth_opt_def readCell_def
        writeCell_def goAdd_def intBits_def intValue_def)











end
